theory Spec2Isabelle
  imports Main
begin

section \<open>JavaScript values\<close>

text \<open>
  The client is untyped JavaScript. The values that reach a truthiness test
  (\<^verbatim>\<open>if (context)\<close>, \<^verbatim>\<open>if (token)\<close>, \<^verbatim>\<open>!chatSessionId\<close>) or a template literal are
  primitives: \<^verbatim>\<open>undefined\<close>, \<^verbatim>\<open>null\<close>, booleans, numbers and strings. Numbers are
  modelled by the integers together with \<^verbatim>\<open>NaN\<close> (session ids are integer keys; the
  fractional and the infinite doubles play no role here). A string is the sequence of bytes
  of its UTF-8 encoding.
  A flat object literal such as \<^verbatim>\<open>{ role: 'user', content }\<close> is the list of its fields
  in the order they were assigned.
\<close>

datatype js_value = JUndefined | JNull | JBool bool | JNum int | JNaN | JStr string

type_synonym js_object = "(string \<times> js_value) list"

text \<open>ToBoolean: the falsy primitives are undefined, null, false, 0, NaN and the empty string.\<close>

fun truthy :: "js_value \<Rightarrow> bool" where
  "truthy JUndefined = False"
| "truthy JNull = False"
| "truthy (JBool b) = b"
| "truthy (JNum n) = (n \<noteq> 0)"
| "truthy JNaN = False"
| "truthy (JStr s) = (s \<noteq> [])"

text \<open>\<^verbatim>\<open>a || b\<close>\<close>

definition js_or :: "js_value \<Rightarrow> js_value \<Rightarrow> js_value" where
  "js_or a b = (if truthy a then a else b)"

text \<open>Property read \<^verbatim>\<open>obj.k\<close>: a field that was never assigned reads as undefined.\<close>

definition get_field :: "js_object \<Rightarrow> string \<Rightarrow> js_value" where
  "get_field obj k = (case map_of obj k of None \<Rightarrow> JUndefined | Some v \<Rightarrow> v)"

text \<open>Decimal rendering of a number, as in \<^verbatim>\<open>String(n)\<close> and in template literals.\<close>

definition digit_char :: "nat \<Rightarrow> char" where
  "digit_char d = char_of (48 + d)"

fun show_nat :: "nat \<Rightarrow> string" where
  "show_nat n = (if n < 10 then [digit_char n] else show_nat (n div 10) @ [digit_char (n mod 10)])"

definition show_int :: "int \<Rightarrow> string" where
  "show_int i = (if i < 0 then CHR ''-'' # show_nat (nat (- i)) else show_nat (nat i))"

text \<open>ToString, used by template literals and by \<^verbatim>\<open>localStorage.setItem\<close>.\<close>

fun to_string :: "js_value \<Rightarrow> string" where
  "to_string JUndefined = ''undefined''"
| "to_string JNull = ''null''"
| "to_string (JBool b) = (if b then ''true'' else ''false'')"
| "to_string (JNum n) = show_int n"
| "to_string JNaN = ''NaN''"
| "to_string (JStr s) = s"

text \<open>
  White space as \<^verbatim>\<open>String.prototype.trim\<close> and \<^verbatim>\<open>parseInt\<close> strip it: the WhiteSpace
  and LineTerminator characters of ECMAScript, each given by the bytes of its UTF-8
  encoding. These are TAB, LF, VT, FF, CR, SPACE, U+00A0, U+1680, U+2000 to U+200A, U+2028,
  U+2029, U+202F, U+205F, U+3000 and U+FEFF.
\<close>

definition white_space :: "string list" where
  "white_space =
     [[CHR 0x09], [CHR 0x0A], [CHR 0x0B], [CHR 0x0C], [CHR 0x0D], [CHR 0x20],
      [CHR 0xC2, CHR 0xA0],
      [CHR 0xE1, CHR 0x9A, CHR 0x80],
      [CHR 0xE2, CHR 0x80, CHR 0x80], [CHR 0xE2, CHR 0x80, CHR 0x81],
      [CHR 0xE2, CHR 0x80, CHR 0x82], [CHR 0xE2, CHR 0x80, CHR 0x83],
      [CHR 0xE2, CHR 0x80, CHR 0x84], [CHR 0xE2, CHR 0x80, CHR 0x85],
      [CHR 0xE2, CHR 0x80, CHR 0x86], [CHR 0xE2, CHR 0x80, CHR 0x87],
      [CHR 0xE2, CHR 0x80, CHR 0x88], [CHR 0xE2, CHR 0x80, CHR 0x89],
      [CHR 0xE2, CHR 0x80, CHR 0x8A],
      [CHR 0xE2, CHR 0x80, CHR 0xA8], [CHR 0xE2, CHR 0x80, CHR 0xA9],
      [CHR 0xE2, CHR 0x80, CHR 0xAF],
      [CHR 0xE2, CHR 0x81, CHR 0x9F],
      [CHR 0xE3, CHR 0x80, CHR 0x80],
      [CHR 0xEF, CHR 0xBB, CHR 0xBF]]"

text \<open>
  Removing white space from the front: as long as the string starts with one of the given
  byte sequences, that sequence is dropped. At the end of a string the same is done on the
  reversed string (a UTF-8 sequence is recognised from its last byte backwards as well as
  from its first byte forwards).
\<close>

function strip :: "string list \<Rightarrow> string \<Rightarrow> string" where
  "strip ps s =
     (case List.find (\<lambda>p. p \<noteq> [] \<and> take (length p) s = p) ps of
        None \<Rightarrow> s
      | Some p \<Rightarrow> strip ps (drop (length p) s))"
  by pat_completeness auto
termination
proof (relation "measure (\<lambda>(ps, s). length s)")
  show "wf (measure (\<lambda>(ps, s). length s))" by simp
next
  fix ps :: "string list" and s p :: string
  assume "List.find (\<lambda>p. p \<noteq> [] \<and> take (length p) s = p) ps = Some p"
  then have p: "p \<noteq> []" and t: "take (length p) s = p"
    by (auto simp add: find_Some_iff)
  from t have "length (take (length p) s) = length p"
    by (rule arg_cong)
  then have "length p \<le> length s"
    by simp
  moreover from p obtain c cs where "p = c # cs"
    by (cases p) auto
  ultimately show "((ps, drop (length p) s), (ps, s)) \<in> measure (\<lambda>(ps, s). length s)"
    by auto
qed

declare strip.simps [simp del]

definition trimStart :: "string \<Rightarrow> string" where
  "trimStart s = strip white_space s"

definition trimEnd :: "string \<Rightarrow> string" where
  "trimEnd s = rev (strip (map rev white_space) (rev s))"

definition trim :: "string \<Rightarrow> string" where
  "trim s = trimEnd (trimStart s)"

text \<open>
  \<^verbatim>\<open>parseInt(s)\<close> without a radix: leading white space, an optional sign, an optional
  \<^verbatim>\<open>0x\<close> prefix selecting radix 16, then the longest run of digits; \<^verbatim>\<open>NaN\<close> when
  there is no digit.
\<close>

definition digit_value :: "char \<Rightarrow> nat" where
  "digit_value c =
     (let n = (of_char c :: nat) in
      if 48 \<le> n \<and> n \<le> 57 then n - 48
      else if 97 \<le> n \<and> n \<le> 122 then n - 87
      else if 65 \<le> n \<and> n \<le> 90 then n - 55
      else 36)"

definition parseInt :: "string \<Rightarrow> js_value" where
  "parseInt s =
     (let s1 = trimStart s;
          negative = (take 1 s1 = ''-'');
          s2 = (if take 1 s1 = ''-'' \<or> take 1 s1 = ''+'' then drop 1 s1 else s1);
          hex = (take 2 s2 = ''0x'' \<or> take 2 s2 = ''0X'');
          radix = (if hex then 16 else 10);
          s3 = (if hex then drop 2 s2 else s2);
          ds = takeWhile (\<lambda>c. digit_value c < radix) s3;
          n = foldl (\<lambda>a c. a * radix + digit_value c) 0 ds
      in if ds = [] then JNaN
         else JNum (if negative then - int n else int n))"


section \<open>The API client (api.js)\<close>

datatype http_method = GET | POST | PUT | DELETE

datatype body = NoBody | JsonBody js_object | FormBody "(string \<times> string) list"

record config =
  baseURL :: string
  req_method :: http_method
  url :: string
  headers :: "string \<rightharpoonup> string"
  data :: body

text \<open>
  A rejected request: axios sets \<^verbatim>\<open>error.response\<close> when the server answered with a
  status outside 2xx, and leaves it unset when no answer arrived.
\<close>

datatype api_error = ApiError (error_message: string) (error_response: "nat option")

text \<open>
  What the client reads and writes outside its own component state: the browser's
  \<^verbatim>\<open>localStorage\<close>, the requests handed to the network in the order they were issued,
  and the lines written with \<^verbatim>\<open>console.error\<close>.
\<close>

record world =
  localStorage :: "string \<rightharpoonup> string"
  network :: "config list"
  console :: "string list"

definition getItem :: "(string \<rightharpoonup> string) \<Rightarrow> string \<Rightarrow> js_value" where
  "getItem ls k = (case ls k of None \<Rightarrow> JNull | Some v \<Rightarrow> JStr v)"

definition setItem :: "(string \<rightharpoonup> string) \<Rightarrow> string \<Rightarrow> js_value \<Rightarrow> (string \<rightharpoonup> string)" where
  "setItem ls k v = ls(k \<mapsto> to_string v)"


definition console_error :: "world \<Rightarrow> string \<Rightarrow> world" where
  "console_error w msg = w\<lparr>console := console w @ [msg]\<rparr>"

definition API_URL :: string where
  "API_URL = ''http://localhost:8000''"

definition default_headers :: "string \<rightharpoonup> string" where
  "default_headers = [''Content-Type'' \<mapsto> ''application/json'']"

text \<open>The request interceptor, lines 13-24.\<close>

definition interceptor :: "world \<Rightarrow> config \<Rightarrow> config" where
  "interceptor w config =
     (let token = getItem (localStorage w) ''token'' in
      if truthy token
      then config\<lparr>headers := (headers config)(''Authorization'' \<mapsto> ''Bearer '' @ to_string token)\<rparr>
      else config)"

text \<open>
  One call on the axios instance (\<^verbatim>\<open>api.get\<close>, \<^verbatim>\<open>api.post\<close>, ...): the instance's
  default headers are overridden by those of the call, the interceptor runs, and the
  request is issued. The answer is the environment's: \<open>outcome\<close> is \<open>Inr\<close> the
  \<^verbatim>\<open>response.data\<close> of a 2xx answer, or \<open>Inl\<close> the error the promise rejects with.
\<close>

definition api_request ::
  "world \<Rightarrow> http_method \<Rightarrow> string \<Rightarrow> body \<Rightarrow> (string \<rightharpoonup> string) \<Rightarrow> (api_error + 'a)
     \<Rightarrow> (api_error + 'a) \<times> world" where
  "api_request w m u d hs outcome =
     (let request = interceptor w \<lparr>baseURL = API_URL, req_method = m, url = u,
                              headers = default_headers ++ hs, data = d\<rparr>
      in (outcome, w\<lparr>network := network w @ [request]\<rparr>))"



text \<open>\<^verbatim>\<open>getEntry\<close>, lines 58-68: \<open>None\<close> is the \<^verbatim>\<open>null\<close> it returns on a 404.\<close>

definition getEntry ::
  "world \<Rightarrow> string \<Rightarrow> (api_error + js_object) \<Rightarrow> (api_error + js_object option) \<times> world" where
  "getEntry w date outcome =
     (case api_request w GET (''/entries/'' @ date) NoBody Map.empty outcome of
        (Inr response_data, w') \<Rightarrow> (Inr (Some response_data), w')
      | (Inl error, w') \<Rightarrow>
          (if error_response error \<noteq> None \<and> error_response error = Some 404
           then (Inr None, w')
           else (Inl error, w')))"



text \<open>
  \<^verbatim>\<open>sendMessage\<close>, lines 90-97. The payload is built first (lines 91-94); an omitted
  third argument takes the default \<^verbatim>\<open>null\<close>.
\<close>

definition sendMessage_payload :: "js_value \<Rightarrow> js_value \<Rightarrow> js_object" where
  "sendMessage_payload content context =
     (let context = (if context = JUndefined then JNull else context);
          payload = [(''role'', JStr ''user''), (''content'', content)]
      in if truthy context then payload @ [(''context'', context)] else payload)"

definition sendMessage ::
  "world \<Rightarrow> js_value \<Rightarrow> js_value \<Rightarrow> js_value \<Rightarrow> (api_error + js_object)
     \<Rightarrow> (api_error + js_object) \<times> world" where
  "sendMessage w sessionId content context outcome =
     api_request w POST (''/chat/'' @ to_string sessionId)
       (JsonBody (sendMessage_payload content context)) Map.empty outcome"

text \<open>\<^verbatim>\<open>getChatHistory\<close>, lines 99-102.\<close>

definition getChatHistory ::
  "world \<Rightarrow> js_value \<Rightarrow> (api_error + js_object list) \<Rightarrow> (api_error + js_object list) \<times> world" where
  "getChatHistory w sessionId outcome =
     api_request w GET (''/chat/'' @ to_string sessionId @ ''/messages'') NoBody Map.empty outcome"

text \<open>\<^verbatim>\<open>createChatSession\<close>, lines 109-112; an omitted title takes the default.\<close>

definition createChatSession ::
  "world \<Rightarrow> js_value \<Rightarrow> (api_error + js_object) \<Rightarrow> (api_error + js_object) \<times> world" where
  "createChatSession w title outcome =
     (let title = (if title = JUndefined then JStr ''New Chat'' else title)
      in api_request w POST ''/chat/sessions'' (JsonBody [(''title'', title)]) Map.empty outcome)"


section \<open>The collaborative editor (AITalk.jsx)\<close>

text \<open>
  The component state of lines 7-16 (the mobile tab and the scroll reference only drive
  the layout). A chat message here is the object \<^verbatim>\<open>{ role, content }\<close>. The title and the
  content hold whatever the entry or the input fields delivered. The date of the entry is
  the prop \<^verbatim>\<open>selectedDate\<close>, a parameter of each handler.
\<close>

record aitalk =
  content :: js_value
  title :: js_value
  isSaving :: bool
  entryExists :: bool
  chatSessionId :: js_value
  chatMessages :: "js_object list"
  userInput :: string
  isAiThinking :: bool

definition aitalk_initial :: aitalk where
  "aitalk_initial =
     \<lparr>content = JStr '''', title = JStr ''My Journal Entry'', isSaving = False,
      entryExists = False, chatSessionId = JNull, chatMessages = [], userInput = '''',
      isAiThinking = False\<rparr>"

text \<open>
  The state setters the two document inputs call on every change (lines 208 and 212) with
  the text of the input field.
\<close>

definition setTitle :: "aitalk \<Rightarrow> string \<Rightarrow> aitalk" where
  "setTitle s v = s\<lparr>title := JStr v\<rparr>"

definition setContent :: "aitalk \<Rightarrow> string \<Rightarrow> aitalk" where
  "setContent s v = s\<lparr>content := JStr v\<rparr>"

text \<open>\<^verbatim>\<open>fetchEntry\<close>, lines 35-50.\<close>

definition fetchEntry ::
  "string \<Rightarrow> aitalk \<Rightarrow> world \<Rightarrow> (api_error + js_object) \<Rightarrow> aitalk \<times> world" where
  "fetchEntry selectedDate s w outcome =
     (case getEntry w selectedDate outcome of
        (Inr (Some entry), w') \<Rightarrow>
          (s\<lparr>content := js_or (get_field entry ''content'') (JStr ''''),
             title := js_or (get_field entry ''title'') (JStr ''My Journal Entry''),
             entryExists := True\<rparr>, w')
      | (Inr None, w') \<Rightarrow>
          (s\<lparr>entryExists := False, content := JStr '''', title := JStr ''My Journal Entry''\<rparr>, w')
      | (Inl error, w') \<Rightarrow> (s, console_error w' ''Failed to fetch entry:''))"

definition greeting :: js_object where
  "greeting =
     [(''role'', JStr ''model''),
      (''content'', JStr (''Hi! I'' @ [CHR 0x27] @ ''m here to help you write your journal entry. Feel free to ask for suggestions, improvements, or just chat about your day.''))]"

text \<open>\<^verbatim>\<open>createNewSession\<close>, lines 70-84.\<close>

definition createNewSession ::
  "string \<Rightarrow> string \<Rightarrow> aitalk \<Rightarrow> world \<Rightarrow> (api_error + js_object) \<Rightarrow> aitalk \<times> world" where
  "createNewSession selectedDate storageKey s w outcome =
     (case createChatSession w (JStr (''Journal: '' @ selectedDate)) outcome of
        (Inr session, w') \<Rightarrow>
          (s\<lparr>chatSessionId := get_field session ''id'', chatMessages := [greeting]\<rparr>,
           w'\<lparr>localStorage := setItem (localStorage w') storageKey (get_field session ''id'')\<rparr>)
      | (Inl error, w') \<Rightarrow> (s, console_error w' ''Failed to create chat session:''))"

text \<open>
  \<^verbatim>\<open>initializeChatSession\<close>, lines 52-68. It makes up to two requests: the history of
  the cached session and, when that fails or nothing is cached, the creation of a session.
\<close>

definition initializeChatSession ::
  "string \<Rightarrow> aitalk \<Rightarrow> world \<Rightarrow> (api_error + js_object list) \<Rightarrow> (api_error + js_object)
     \<Rightarrow> aitalk \<times> world" where
  "initializeChatSession selectedDate s w history_outcome create_outcome =
     (let storageKey = ''chat_session_'' @ selectedDate;
          storedSessionId = getItem (localStorage w) storageKey
      in if truthy storedSessionId
         then (let s1 = s\<lparr>chatSessionId := parseInt (to_string storedSessionId)\<rparr>
               in case getChatHistory w storedSessionId history_outcome of
                    (Inr history, w') \<Rightarrow> (s1\<lparr>chatMessages := history\<rparr>, w')
                  | (Inl error, w') \<Rightarrow>
                      createNewSession selectedDate storageKey s1
                        (console_error w' ''Failed to load chat history, creating new session'')
                        create_outcome)
         else createNewSession selectedDate storageKey s w create_outcome)"







text \<open>The context of line 121, a template literal over the title and content in state.\<close>

definition document_context :: "js_value \<Rightarrow> js_value \<Rightarrow> string" where
  "document_context t c =
     ''Current Journal Entry:'' @ [CHR 0x0A] @ ''Title: '' @ to_string t @ [CHR 0x0A] @
     ''Content: '' @ to_string c"

definition fallback_text :: string where
  "fallback_text = ''Sorry, I encountered an error. Please try again.''"

text \<open>\<^verbatim>\<open>handleSendMessage\<close> of the editor, lines 110-132.\<close>

definition AITalk_handleSendMessage ::
  "aitalk \<Rightarrow> world \<Rightarrow> (api_error + js_object) \<Rightarrow> aitalk \<times> world" where
  "AITalk_handleSendMessage s w outcome =
     (if \<not> truthy (JStr (trim (userInput s))) \<or> \<not> truthy (chatSessionId s) then (s, w)
      else
        (let newMessage = [(''role'', JStr ''user''), (''content'', JStr (userInput s))];
             s1 = s\<lparr>chatMessages := chatMessages s @ [newMessage], userInput := '''',
                    isAiThinking := True\<rparr>;
             context = document_context (title s) (content s)
         in case sendMessage w (chatSessionId s) (get_field newMessage ''content'')
                   (JStr context) outcome of
              (Inr response, w') \<Rightarrow>
                (s1\<lparr>chatMessages := chatMessages s1 @
                        [[(''role'', JStr ''model''), (''content'', get_field response ''content'')]],
                     isAiThinking := False\<rparr>, w')
            | (Inl error, w') \<Rightarrow>
                (s1\<lparr>chatMessages := chatMessages s1 @
                        [[(''role'', JStr ''model''), (''content'', JStr fallback_text)]],
                     isAiThinking := False\<rparr>,
                 console_error w' ''Failed to send message:'')))"


section \<open>The standalone chat (ChatInterface.jsx)\<close>

text \<open>
  A \<^verbatim>\<open>Date\<close> object is kept as the argument it was constructed from; \<^verbatim>\<open>new Date()\<close>
  is constructed from the clock. A message of this component carries an id, a role, a
  content, a timestamp and the optional flag \<^verbatim>\<open>showSuggestions\<close>.
\<close>

datatype js_date = Date js_value

record chat_message =
  message_id :: js_value
  message_role :: string
  message_content :: js_value
  message_timestamp :: js_date
  showSuggestions :: bool

record chat_interface =
  messages :: "chat_message list"
  inputMessage :: string
  isLoading :: bool
  sessions :: "js_object list"
  currentSessionId :: js_value

text \<open>
  \<^verbatim>\<open>handleSendMessage\<close> of the standalone chat, lines 147-190. \<open>customMessage\<close> is
  \<open>Some m\<close> when the argument is a string and \<open>None\<close> otherwise (the default
  \<^verbatim>\<open>null\<close>, or the click event of the send button); \<open>now\<close> is the clock in
  milliseconds. First the part from line 165 on, which sends to \<open>activeSessionId\<close>.
\<close>

definition send_to_session ::
  "chat_interface \<Rightarrow> world \<Rightarrow> js_value \<Rightarrow> string \<Rightarrow> int \<Rightarrow> (api_error + js_object)
     \<Rightarrow> chat_interface \<times> world" where
  "send_to_session c w activeSessionId messageToSend now outcome =
     (let newMessage =
            \<lparr>message_id = JNum now, message_role = ''user'',
             message_content = JStr messageToSend, message_timestamp = Date (JNum now),
             showSuggestions = False\<rparr>;
          c1 = c\<lparr>messages := messages c @ [newMessage], inputMessage := '''', isLoading := True\<rparr>
      in case sendMessage w activeSessionId (JStr messageToSend) JUndefined outcome of
           (Inr response, w') \<Rightarrow>
             (let aiMessage =
                    \<lparr>message_id = get_field response ''id'', message_role = ''assistant'',
                     message_content = get_field response ''content'',
                     message_timestamp = Date (get_field response ''timestamp''),
                     showSuggestions = False\<rparr>
              in (c1\<lparr>messages := messages c1 @ [aiMessage], isLoading := False\<rparr>, w'))
         | (Inl error, w') \<Rightarrow>
             (c1\<lparr>isLoading := False\<rparr>, console_error w' ''Failed to send message''))"

definition ChatInterface_handleSendMessage ::
  "chat_interface \<Rightarrow> world \<Rightarrow> string option \<Rightarrow> int \<Rightarrow> (api_error + js_object)
     \<Rightarrow> (api_error + js_object) \<Rightarrow> chat_interface \<times> world" where
  "ChatInterface_handleSendMessage c w customMessage now create_outcome send_outcome =
     (let messageToSend = (case customMessage of Some m \<Rightarrow> m | None \<Rightarrow> inputMessage c)
      in if \<not> truthy (JStr messageToSend) \<or> trim messageToSend = '''' \<or> isLoading c then (c, w)
         else if \<not> truthy (currentSessionId c)
         then (case createChatSession w JUndefined create_outcome of
                 (Inr newSession, w') \<Rightarrow>
                   send_to_session
                     (c\<lparr>sessions := newSession # sessions c,
                        currentSessionId := get_field newSession ''id''\<rparr>)
                     w' (get_field newSession ''id'') messageToSend now send_outcome
               | (Inl error, w') \<Rightarrow> (c, console_error w' ''Failed to create session''))
         else send_to_session c w (currentSessionId c) messageToSend now send_outcome)"


section \<open>Observing a run\<close>

text \<open>The requests issued between an earlier world and a later one, oldest first.\<close>

definition issued :: "world \<Rightarrow> world \<Rightarrow> config list" where
  "issued w w' = drop (length (network w)) (network w')"

text \<open>What a request asks for: its method, its path and its body.\<close>

definition request_line :: "config \<Rightarrow> http_method \<times> string \<times> body" where
  "request_line r = (req_method r, url r, data r)"



section \<open>The states the client can bring about\<close>

text \<open>
  The browser storage starts empty and is written by nothing but this client. A world is
  reachable when the operations above lead to it from the empty one. The functions of
  api.js that are not spelled out (\<^verbatim>\<open>register\<close>, \<^verbatim>\<open>getEntries\<close>, \<^verbatim>\<open>deleteEntry\<close>,
  \<^verbatim>\<open>getChatSessions\<close>, \<^verbatim>\<open>deleteChatSession\<close>) are one call on the shared client each
  and touch nothing else.
\<close>

definition world_initial :: world where
  "world_initial = \<lparr>localStorage = Map.empty, network = [], console = []\<rparr>"



section \<open>Requests and what they carry\<close>

lemma strip_Nil: "strip ps [] = []"
proof -
  have "List.find (\<lambda>p. p \<noteq> [] \<and> take (length p) [] = p) ps = None"
    by (auto simp add: find_None_iff)
  then show ?thesis by (subst strip.simps) simp
qed

lemma trim_Nil: "trim [] = []"
  by (simp add: trim_def trimStart_def trimEnd_def strip_Nil)

lemma trim_nonempty: "trim s \<noteq> [] \<Longrightarrow> s \<noteq> []"
  using trim_Nil by auto

lemma api_request_eq:
  "api_request w m u d hs outcome =
     (outcome, w\<lparr>network := network w @
          [interceptor w \<lparr>baseURL = API_URL, req_method = m, url = u,
                           headers = default_headers ++ hs, data = d\<rparr>]\<rparr>)"
  by (simp add: api_request_def Let_def)

lemma interceptor_data: "data (interceptor w c) = data c"
  by (simp add: interceptor_def Let_def)

lemma interceptor_method: "req_method (interceptor w c) = req_method c"
  by (simp add: interceptor_def Let_def)

lemma interceptor_url: "url (interceptor w c) = url c"
  by (simp add: interceptor_def Let_def)

lemma sendMessage_eq:
  "sendMessage w sessionId c ctx outcome =
     (outcome, w\<lparr>network := network w @
          [interceptor w \<lparr>baseURL = API_URL, req_method = POST, url = ''/chat/'' @ to_string sessionId,
                           headers = default_headers,
                           data = JsonBody (sendMessage_payload c ctx)\<rparr>]\<rparr>)"
  by (simp add: sendMessage_def api_request_eq)

lemma getEntry_eq:
  "getEntry w date outcome =
     ((case outcome of
         Inr response_data \<Rightarrow> Inr (Some response_data)
       | Inl error \<Rightarrow> if error_response error = Some 404 then Inr None else Inl error),
      w\<lparr>network := network w @
          [interceptor w \<lparr>baseURL = API_URL, req_method = GET, url = ''/entries/'' @ date,
                           headers = default_headers, data = NoBody\<rparr>]\<rparr>)"
  by (simp add: getEntry_def api_request_eq split: sum.splits)

lemma AITalk_handleSendMessage_network:
  "trim (userInput s) \<noteq> '''' \<Longrightarrow> truthy (chatSessionId s) \<Longrightarrow>
   network (snd (AITalk_handleSendMessage s w outcome)) =
     network w @
       [interceptor w
          \<lparr>baseURL = API_URL, req_method = POST, url = ''/chat/'' @ to_string (chatSessionId s),
           headers = default_headers,
           data = JsonBody (sendMessage_payload (JStr (userInput s))
                              (JStr (document_context (title s) (content s))))\<rparr>]"
  by (simp add: AITalk_handleSendMessage_def Let_def sendMessage_eq get_field_def console_error_def
      split: sum.splits)














lemma request_line_interceptor: "request_line (interceptor w r) = request_line r"
  by (simp add: request_line_def interceptor_method interceptor_url interceptor_data)

lemma request_line_config:
  "request_line \<lparr>baseURL = b, req_method = m, url = u, headers = h, data = d\<rparr> = (m, u, d)"
  by (simp add: request_line_def)










lemma createChatSession_eq:
  "createChatSession w t outcome =
     (outcome, w\<lparr>network := network w @
        [interceptor w \<lparr>baseURL = API_URL, req_method = POST, url = ''/chat/sessions'',
           headers = default_headers,
           data = JsonBody [(''title'', if t = JUndefined then JStr ''New Chat'' else t)]\<rparr>]\<rparr>)"
  by (simp add: createChatSession_def api_request_eq Let_def)

lemma getChatHistory_eq:
  "getChatHistory w sessionId outcome =
     (outcome, w\<lparr>network := network w @
        [interceptor w \<lparr>baseURL = API_URL, req_method = GET,
           url = ''/chat/'' @ to_string sessionId @ ''/messages'',
           headers = default_headers, data = NoBody\<rparr>]\<rparr>)"
  by (simp add: getChatHistory_def api_request_eq)

lemma send_to_session_eq:
  "send_to_session c w a m now outcome =
     (c\<lparr>messages := messages c @
            \<lparr>message_id = JNum now, message_role = ''user'', message_content = JStr m,
              message_timestamp = Date (JNum now), showSuggestions = False\<rparr> #
            (case outcome of
               Inl error \<Rightarrow> []
             | Inr response \<Rightarrow>
                 [\<lparr>message_id = get_field response ''id'', message_role = ''assistant'',
                   message_content = get_field response ''content'',
                   message_timestamp = Date (get_field response ''timestamp''),
                   showSuggestions = False\<rparr>]),
         inputMessage := '''', isLoading := False\<rparr>,
      w\<lparr>network := network w @
            [interceptor w \<lparr>baseURL = API_URL, req_method = POST, url = ''/chat/'' @ to_string a,
               headers = default_headers,
               data = JsonBody [(''role'', JStr ''user''), (''content'', JStr m)]\<rparr>],
         console := console w @ (if isl outcome then [''Failed to send message''] else [])\<rparr>)"
  by (cases outcome)
     (simp_all add: send_to_session_def Let_def sendMessage_eq sendMessage_payload_def
        console_error_def)

lemma createNewSession_eq:
  "createNewSession d k s w outcome =
     (case outcome of
        Inr session \<Rightarrow>
          (s\<lparr>chatSessionId := get_field session ''id'', chatMessages := [greeting]\<rparr>,
           w\<lparr>network := network w @
                 [interceptor w \<lparr>baseURL = API_URL, req_method = POST, url = ''/chat/sessions'',
                    headers = default_headers,
                    data = JsonBody [(''title'', JStr (''Journal: '' @ d))]\<rparr>],
              localStorage := (localStorage w)(k \<mapsto> to_string (get_field session ''id''))\<rparr>)
      | Inl error \<Rightarrow>
          (s,
           w\<lparr>network := network w @
                 [interceptor w \<lparr>baseURL = API_URL, req_method = POST, url = ''/chat/sessions'',
                    headers = default_headers,
                    data = JsonBody [(''title'', JStr (''Journal: '' @ d))]\<rparr>],
              console := console w @ [''Failed to create chat session:'']\<rparr>))"
  by (cases outcome)
     (simp_all add: createNewSession_def createChatSession_eq setItem_def console_error_def)


section \<open>The context sent with a chat message\<close>

text \<open>
  C1, as the specification states it: the context assembled for an outgoing chat message is
  the string \<^verbatim>\<open>current document state: title=<t>, content=<c>\<close>. The editor sends a
  different text: for the title \<^verbatim>\<open>T\<close> and the content \<^verbatim>\<open>C\<close> the request does not carry
  the stated string.
\<close>

theorem AITalk_context_counterexample:
  "map data (network (snd (AITalk_handleSendMessage
       (aitalk_initial\<lparr>title := JStr ''T'', content := JStr ''C'', userInput := ''hi'',
                        chatSessionId := JNum 1\<rparr>)
       world_initial (Inr [(''content'', JStr ''hello'')]))))
   \<noteq> [JsonBody [(''role'', JStr ''user''), (''content'', JStr ''hi''),
                  (''context'', JStr ''current document state: title=T, content=C'')]]"
proof -
  have "trim ''hi'' \<noteq> []"
    by code_simp
  then show ?thesis
    by (simp add: AITalk_handleSendMessage_network aitalk_initial_def world_initial_def
        sendMessage_payload_def document_context_def interceptor_data)
qed

text \<open>
  C1, amended: whatever the editor state was before (for instance the entry last loaded from
  the server), once the title field holds \<open>t\<close> and the content field holds \<open>c\<close>, a
  message that passes the guard is sent with the context
  \<^verbatim>\<open>Current Journal Entry:\<close>, newline, \<^verbatim>\<open>Title: <t>\<close>, newline, \<^verbatim>\<open>Content: <c>\<close>,
  built at send time from these two fields of the component state.
\<close>

theorem AITalk_context_from_editor_state:
  assumes "trim (userInput s) \<noteq> ''''" and "truthy (chatSessionId s)"
  shows "map data (network (snd (AITalk_handleSendMessage (setContent (setTitle s t) c) w outcome))) =
           map data (network w) @
             [JsonBody [(''role'', JStr ''user''), (''content'', JStr (userInput s)),
                (''context'', JStr (''Current Journal Entry:'' @ [CHR 0x0A] @ ''Title: '' @ t @
                                    [CHR 0x0A] @ ''Content: '' @ c))]]"
  using assms
  by (simp add: AITalk_handleSendMessage_network setContent_def setTitle_def
      sendMessage_payload_def document_context_def interceptor_data)

theorem AITalk_context_from_editor_state_witness:
  "trim (userInput ((fst (fetchEntry ''2024-01-01'' aitalk_initial world_initial
            (Inr [(''title'', JStr ''Saved title''), (''content'', JStr ''Saved text'')])))
          \<lparr>userInput := ''hi'', chatSessionId := JNum 1\<rparr>)) \<noteq> [] \<and>
   map data (network (snd (AITalk_handleSendMessage
       (setContent (setTitle
          ((fst (fetchEntry ''2024-01-01'' aitalk_initial world_initial
              (Inr [(''title'', JStr ''Saved title''), (''content'', JStr ''Saved text'')])))
            \<lparr>userInput := ''hi'', chatSessionId := JNum 1\<rparr>) ''T'') ''C'')
       world_initial (Inr [(''content'', JStr ''hello'')])))) =
     [JsonBody [(''role'', JStr ''user''), (''content'', JStr ''hi''),
        (''context'', JStr (''Current Journal Entry:'' @ [CHR 0x0A] @ ''Title: T'' @
                            [CHR 0x0A] @ ''Content: C''))]]"
proof -
  let ?s = "(fst (fetchEntry ''2024-01-01'' aitalk_initial world_initial
            (Inr [(''title'', JStr ''Saved title''), (''content'', JStr ''Saved text'')])))
          \<lparr>userInput := ''hi'', chatSessionId := JNum 1\<rparr>"
  have "trim ''hi'' \<noteq> []"
    by code_simp
  then have g1: "trim (userInput ?s) \<noteq> []"
    by simp
  have g2: "truthy (chatSessionId ?s)"
    by simp
  from AITalk_context_from_editor_state [OF g1 g2, of "''T''" "''C''" world_initial
      "Inr [(''content'', JStr ''hello'')]"] g1
  show ?thesis by (simp add: world_initial_def)
qed


section \<open>The payload of sendMessage\<close>

text \<open>
  C3, as the specification states it: whenever a context string is supplied to
  \<^verbatim>\<open>sendMessage\<close>, the payload's context field equals that string. The empty string is a
  context string, and the payload built for it has no context field.
\<close>

theorem sendMessage_empty_context_counterexample:
  "map_of (sendMessage_payload (JStr ''hello'') (JStr '''')) ''context'' \<noteq> Some (JStr '''')"
  by (simp add: sendMessage_payload_def)

text \<open>
  C3, amended: when no context is supplied (the argument is omitted or \<^verbatim>\<open>null\<close>) the payload
  has the fields role and content and nothing else; when a non-empty context string is
  supplied, the payload's context field is that string; the payload built from the context
  of the editor for a title \<open>t\<close> and a content \<open>b\<close> contains both; and this payload is
  the body of the request that is issued.
\<close>

theorem sendMessage_context_field:
  "(ctx = JUndefined \<or> ctx = JNull \<longrightarrow>
      sendMessage_payload c ctx = [(''role'', JStr ''user''), (''content'', c)]) \<and>
   (x \<noteq> [] \<longrightarrow>
      sendMessage_payload c (JStr x) =
        [(''role'', JStr ''user''), (''content'', c), (''context'', JStr x)]) \<and>
   sendMessage_payload c (JStr (document_context (JStr t) (JStr b))) =
     [(''role'', JStr ''user''), (''content'', c),
      (''context'', JStr (''Current Journal Entry:'' @ [CHR 0x0A] @ ''Title: '' @ t @
                          [CHR 0x0A] @ ''Content: '' @ b))] \<and>
   map data (network (snd (sendMessage w sessionId c ctx outcome))) =
     map data (network w) @ [JsonBody (sendMessage_payload c ctx)]"
  by (auto simp add: sendMessage_eq sendMessage_payload_def Let_def interceptor_data document_context_def)

theorem sendMessage_context_field_witness:
  "sendMessage_payload (JStr ''hello'') JNull =
     [(''role'', JStr ''user''), (''content'', JStr ''hello'')] \<and>
   sendMessage_payload (JStr ''hello'') (JStr ''T and C'') =
     [(''role'', JStr ''user''), (''content'', JStr ''hello''), (''context'', JStr ''T and C'')] \<and>
   sendMessage_payload (JStr ''hello'') (JStr (document_context (JStr ''T'') (JStr ''C''))) =
     [(''role'', JStr ''user''), (''content'', JStr ''hello''),
      (''context'', JStr (''Current Journal Entry:'' @ [CHR 0x0A] @ ''Title: T'' @
                          [CHR 0x0A] @ ''Content: C''))]"
  using sendMessage_context_field
    [where ctx = JNull and c = "JStr ''hello''" and x = "''T and C''" and t = "''T''"
       and b = "''C''" and w = world_initial and sessionId = "JNum 1"
       and outcome = "Inr [(''content'', JStr ''hi'')]"]
  by simp

text \<open>
  C9: when the context handed to \<^verbatim>\<open>sendMessage\<close> is falsy (undefined, null, false, 0, NaN
  or the empty string), the payload has the fields role and content only, so an empty but
  present context string sends no document state.
\<close>

theorem sendMessage_falsy_context_omitted:
  "\<not> truthy ctx \<Longrightarrow>
     sendMessage_payload c ctx = [(''role'', JStr ''user''), (''content'', c)] \<and>
     map_of (sendMessage_payload c ctx) ''context'' = None \<and>
     map data (network (snd (sendMessage w sessionId c ctx outcome))) =
       map data (network w) @ [JsonBody [(''role'', JStr ''user''), (''content'', c)]]"
  by (simp add: sendMessage_eq sendMessage_payload_def Let_def interceptor_data)

theorem sendMessage_falsy_context_omitted_witness:
  "\<not> truthy (JStr '''') \<and>
   sendMessage_payload (JStr ''hello'') (JStr '''') =
     [(''role'', JStr ''user''), (''content'', JStr ''hello'')] \<and>
   map data (network (snd (sendMessage world_initial (JNum 7) (JStr ''hello'') (JStr '''')
       (Inr [(''content'', JStr ''hi'')])))) =
     [JsonBody [(''role'', JStr ''user''), (''content'', JStr ''hello'')]]"
  using sendMessage_falsy_context_omitted
    [of "JStr ''''" "JStr ''hello''" world_initial "JNum 7" "Inr [(''content'', JStr ''hi'')]"]
  by (simp add: world_initial_def)


section \<open>Looking an entry up\<close>

text \<open>
  C6: \<^verbatim>\<open>getEntry\<close> returns \<^verbatim>\<open>null\<close> exactly when the request is rejected with a response
  of status 404; it returns the entry data when the request succeeds; every other error is
  thrown again as it is.
\<close>

theorem getEntry_null_iff_404:
  "(fst (getEntry w date outcome) = Inr None \<longleftrightarrow>
      (\<exists>error. outcome = Inl error \<and> error_response error = Some 404)) \<and>
   (outcome = Inr response_data \<longrightarrow>
      fst (getEntry w date outcome) = Inr (Some response_data)) \<and>
   (outcome = Inl error \<and> error_response error \<noteq> Some 404 \<longrightarrow>
      fst (getEntry w date outcome) = Inl error)"
  by (auto simp add: getEntry_eq split: sum.splits)

theorem getEntry_null_iff_404_witness:
  "fst (getEntry world_initial ''2024-01-01'' (Inl (ApiError ''Request failed with status code 404'' (Some 404))))
     = Inr None \<and>
   fst (getEntry world_initial ''2024-01-01'' (Inr [(''title'', JStr ''A day'')]))
     = Inr (Some [(''title'', JStr ''A day'')]) \<and>
   fst (getEntry world_initial ''2024-01-01'' (Inl (ApiError ''Network Error'' None)))
     = Inl (ApiError ''Network Error'' None) \<and>
   fst (getEntry world_initial ''2024-01-01'' (Inl (ApiError ''Request failed with status code 500'' (Some 500))))
     = Inl (ApiError ''Request failed with status code 500'' (Some 500))"
  using getEntry_null_iff_404
    [where w = world_initial and date = "''2024-01-01''"
       and outcome = "Inl (ApiError ''Request failed with status code 404'' (Some 404))"]
    getEntry_null_iff_404
    [where w = world_initial and date = "''2024-01-01''"
       and outcome = "Inr [(''title'', JStr ''A day'')]"
       and response_data = "[(''title'', JStr ''A day'')]"]
    getEntry_null_iff_404
    [where w = world_initial and date = "''2024-01-01''"
       and outcome = "Inl (ApiError ''Network Error'' None)"
       and error = "ApiError ''Network Error'' None"]
    getEntry_null_iff_404
    [where w = world_initial and date = "''2024-01-01''"
       and outcome = "Inl (ApiError ''Request failed with status code 500'' (Some 500))"
       and error = "ApiError ''Request failed with status code 500'' (Some 500)"]
  by simp


section \<open>The guard of the editor's chat\<close>

text \<open>
  C10: when the trimmed input is empty or no chat session id is set, the editor's
  \<^verbatim>\<open>handleSendMessage\<close> returns at once: the component state (message list, input field,
  thinking flag) is unchanged and so is the world (no request is issued).
\<close>

theorem AITalk_handleSendMessage_guard:
  "trim (userInput s) = '''' \<or> \<not> truthy (chatSessionId s) \<Longrightarrow>
     AITalk_handleSendMessage s w outcome = (s, w)"
  by (auto simp add: AITalk_handleSendMessage_def)

theorem AITalk_handleSendMessage_guard_witness:
  "trim ''   '' = [] \<and>
   AITalk_handleSendMessage (aitalk_initial\<lparr>userInput := ''   '', chatSessionId := JNum 4\<rparr>)
       world_initial (Inr [(''content'', JStr ''hi'')])
     = (aitalk_initial\<lparr>userInput := ''   '', chatSessionId := JNum 4\<rparr>, world_initial) \<and>
   trim [CHR 0xC2, CHR 0xA0] = [] \<and>
   AITalk_handleSendMessage
       (aitalk_initial\<lparr>userInput := [CHR 0xC2, CHR 0xA0], chatSessionId := JNum 4\<rparr>)
       world_initial (Inr [(''content'', JStr ''hi'')])
     = (aitalk_initial\<lparr>userInput := [CHR 0xC2, CHR 0xA0], chatSessionId := JNum 4\<rparr>,
        world_initial) \<and>
   \<not> truthy (chatSessionId (aitalk_initial\<lparr>userInput := ''hello''\<rparr>)) \<and>
   AITalk_handleSendMessage (aitalk_initial\<lparr>userInput := ''hello''\<rparr>)
       world_initial (Inr [(''content'', JStr ''hi'')])
     = (aitalk_initial\<lparr>userInput := ''hello''\<rparr>, world_initial)"
proof -
  have blank: "trim ''   '' = []"
    by code_simp
  have nbsp: "trim [CHR 0xC2, CHR 0xA0] = []"
    by code_simp
  have none: "\<not> truthy (chatSessionId (aitalk_initial\<lparr>userInput := ''hello''\<rparr>))"
    by (simp add: aitalk_initial_def)
  from blank have a:
    "AITalk_handleSendMessage (aitalk_initial\<lparr>userInput := ''   '', chatSessionId := JNum 4\<rparr>)
       world_initial (Inr [(''content'', JStr ''hi'')])
     = (aitalk_initial\<lparr>userInput := ''   '', chatSessionId := JNum 4\<rparr>, world_initial)"
    by (intro AITalk_handleSendMessage_guard) simp
  from nbsp have b:
    "AITalk_handleSendMessage
       (aitalk_initial\<lparr>userInput := [CHR 0xC2, CHR 0xA0], chatSessionId := JNum 4\<rparr>)
       world_initial (Inr [(''content'', JStr ''hi'')])
     = (aitalk_initial\<lparr>userInput := [CHR 0xC2, CHR 0xA0], chatSessionId := JNum 4\<rparr>,
        world_initial)"
    by (intro AITalk_handleSendMessage_guard) simp
  from none have c:
    "AITalk_handleSendMessage (aitalk_initial\<lparr>userInput := ''hello''\<rparr>)
       world_initial (Inr [(''content'', JStr ''hi'')])
     = (aitalk_initial\<lparr>userInput := ''hello''\<rparr>, world_initial)"
    by (intro AITalk_handleSendMessage_guard) simp
  from blank nbsp none a b c show ?thesis
    by simp
qed


section \<open>The bearer token\<close>




section \<open>Saving the entry of a date\<close>





section \<open>The session of the editor's chat\<close>

text \<open>
  C4: when a session id is cached for the date and loading its history fails, the editor
  asks for a new session, and once that is created its id is stored under the same key
  \<^verbatim>\<open>chat_session_<date>\<close>, it becomes the current session and the chat shows the
  greeting; the failure goes to the console only. When nothing is cached for the date (or
  the cached value is empty), a new session is created and cached in the same way.
\<close>

theorem initializeChatSession_replaces_stale_session:
  fixes d :: string
  defines "key \<equiv> ''chat_session_'' @ d"
  defines "create \<equiv> (POST, ''/chat/sessions'', JsonBody [(''title'', JStr (''Journal: '' @ d))])"
  shows "(truthy (getItem (localStorage w) key) \<and> history_outcome = Inl error \<longrightarrow>
            map request_line
              (issued w (snd (initializeChatSession d s w history_outcome create_outcome))) =
              [(GET, ''/chat/'' @ to_string (getItem (localStorage w) key) @ ''/messages'', NoBody),
               create] \<and>
            console (snd (initializeChatSession d s w history_outcome (Inr session))) =
              console w @ [''Failed to load chat history, creating new session'']) \<and>
         (\<not> truthy (getItem (localStorage w) key) \<longrightarrow>
            map request_line
              (issued w (snd (initializeChatSession d s w history_outcome create_outcome))) =
              [create] \<and>
            console (snd (initializeChatSession d s w history_outcome (Inr session))) = console w) \<and>
         (truthy (getItem (localStorage w) key) \<and> history_outcome = Inl error \<or>
          \<not> truthy (getItem (localStorage w) key) \<longrightarrow>
            localStorage (snd (initializeChatSession d s w history_outcome (Inr session))) =
              (localStorage w)(key \<mapsto> to_string (get_field session ''id'')) \<and>
            chatSessionId (fst (initializeChatSession d s w history_outcome (Inr session))) =
              get_field session ''id'' \<and>
            chatMessages (fst (initializeChatSession d s w history_outcome (Inr session))) =
              [greeting])"
  unfolding key_def create_def
  by (cases create_outcome)
     (auto simp add: initializeChatSession_def Let_def getChatHistory_eq createNewSession_eq
        console_error_def issued_def request_line_interceptor request_line_config)

theorem initializeChatSession_replaces_stale_session_witness:
  "truthy (getItem [''chat_session_2024-01-01'' \<mapsto> ''41''] ''chat_session_2024-01-01'') \<and>
   map request_line (issued (world_initial\<lparr>localStorage := [''chat_session_2024-01-01'' \<mapsto> ''41'']\<rparr>)
     (snd (initializeChatSession ''2024-01-01'' aitalk_initial
        (world_initial\<lparr>localStorage := [''chat_session_2024-01-01'' \<mapsto> ''41'']\<rparr>)
        (Inl (ApiError ''Request failed with status code 404'' (Some 404)))
        (Inr [(''id'', JNum 42), (''title'', JStr ''Journal: 2024-01-01'')])))) =
     [(GET, ''/chat/41/messages'', NoBody),
      (POST, ''/chat/sessions'', JsonBody [(''title'', JStr ''Journal: 2024-01-01'')])] \<and>
   localStorage (snd (initializeChatSession ''2024-01-01'' aitalk_initial
        (world_initial\<lparr>localStorage := [''chat_session_2024-01-01'' \<mapsto> ''41'']\<rparr>)
        (Inl (ApiError ''Request failed with status code 404'' (Some 404)))
        (Inr [(''id'', JNum 42), (''title'', JStr ''Journal: 2024-01-01'')])))
     ''chat_session_2024-01-01'' = Some ''42'' \<and>
   chatSessionId (fst (initializeChatSession ''2024-01-01'' aitalk_initial
        (world_initial\<lparr>localStorage := [''chat_session_2024-01-01'' \<mapsto> ''41'']\<rparr>)
        (Inl (ApiError ''Request failed with status code 404'' (Some 404)))
        (Inr [(''id'', JNum 42), (''title'', JStr ''Journal: 2024-01-01'')]))) = JNum 42 \<and>
   \<not> truthy (getItem Map.empty ''chat_session_2024-01-01'') \<and>
   localStorage (snd (initializeChatSession ''2024-01-01'' aitalk_initial world_initial
        (Inr []) (Inr [(''id'', JNum 42), (''title'', JStr ''Journal: 2024-01-01'')])))
     ''chat_session_2024-01-01'' = Some ''42''"
proof -
  let ?w = "world_initial\<lparr>localStorage := [''chat_session_2024-01-01'' \<mapsto> ''41'']\<rparr>"
  let ?e = "ApiError ''Request failed with status code 404'' (Some 404)"
  let ?session = "[(''id'', JNum 42), (''title'', JStr ''Journal: 2024-01-01'')]"
  have t: "truthy (getItem (localStorage ?w) (''chat_session_'' @ ''2024-01-01''))"
    by (simp add: getItem_def)
  have f: "\<not> truthy (getItem (localStorage world_initial) (''chat_session_'' @ ''2024-01-01''))"
    by (simp add: getItem_def world_initial_def)
  have n: "show_int 42 = ''42''" "show_int 41 = ''41''"
    by code_simp+
  from t initializeChatSession_replaces_stale_session
    [where w = ?w and d = "''2024-01-01''" and s = aitalk_initial and history_outcome = "Inl ?e"
       and error = ?e and create_outcome = "Inr ?session" and session = ?session]
  have a: "map request_line (issued ?w (snd (initializeChatSession ''2024-01-01'' aitalk_initial ?w
             (Inl ?e) (Inr ?session)))) =
           [(GET, ''/chat/41/messages'', NoBody),
            (POST, ''/chat/sessions'', JsonBody [(''title'', JStr ''Journal: 2024-01-01'')])]"
    and b: "localStorage (snd (initializeChatSession ''2024-01-01'' aitalk_initial ?w
             (Inl ?e) (Inr ?session))) ''chat_session_2024-01-01'' = Some ''42''"
    and c: "chatSessionId (fst (initializeChatSession ''2024-01-01'' aitalk_initial ?w
             (Inl ?e) (Inr ?session))) = JNum 42"
    by (simp_all add: getItem_def get_field_def n)
  from f initializeChatSession_replaces_stale_session
    [where w = world_initial and d = "''2024-01-01''" and s = aitalk_initial
       and history_outcome = "Inr []" and create_outcome = "Inr ?session" and session = ?session]
  have d: "localStorage (snd (initializeChatSession ''2024-01-01'' aitalk_initial world_initial
             (Inr []) (Inr ?session))) ''chat_session_2024-01-01'' = Some ''42''"
    by (simp add: get_field_def n)
  from t f a b c d show ?thesis
    by (simp add: world_initial_def)
qed


section \<open>Sending from the standalone chat\<close>

text \<open>
  C7: when no session is selected and the message passes the guard (it is not blank and no
  send is in flight), the standalone chat first asks for a new session; when that is
  created it becomes the current session, is put in front of the session list, and the
  message is sent to it; when the creation fails, nothing else is requested and the state
  is unchanged. A message that does not pass the guard causes no request at all. So no
  message is ever sent to a missing session.
\<close>

theorem ChatInterface_creates_session_first:
  assumes "\<not> truthy (currentSessionId c)"
    and "m = (case customMessage of Some x \<Rightarrow> x | None \<Rightarrow> inputMessage c)"
  shows "(trim m \<noteq> [] \<and> \<not> isLoading c \<and> create_outcome = Inr newSession \<longrightarrow>
            map request_line (issued w (snd (ChatInterface_handleSendMessage c w customMessage now
                create_outcome send_outcome))) =
              [(POST, ''/chat/sessions'', JsonBody [(''title'', JStr ''New Chat'')]),
               (POST, ''/chat/'' @ to_string (get_field newSession ''id''),
                JsonBody [(''role'', JStr ''user''), (''content'', JStr m)])] \<and>
            currentSessionId (fst (ChatInterface_handleSendMessage c w customMessage now
                create_outcome send_outcome)) = get_field newSession ''id'' \<and>
            sessions (fst (ChatInterface_handleSendMessage c w customMessage now
                create_outcome send_outcome)) = newSession # sessions c) \<and>
         (trim m \<noteq> [] \<and> \<not> isLoading c \<and> create_outcome = Inl error \<longrightarrow>
            map request_line (issued w (snd (ChatInterface_handleSendMessage c w customMessage now
                create_outcome send_outcome))) =
              [(POST, ''/chat/sessions'', JsonBody [(''title'', JStr ''New Chat'')])] \<and>
            fst (ChatInterface_handleSendMessage c w customMessage now create_outcome send_outcome) = c) \<and>
         (trim m = [] \<or> isLoading c \<longrightarrow>
            ChatInterface_handleSendMessage c w customMessage now create_outcome send_outcome = (c, w))"
proof -
  have "trim m \<noteq> [] \<Longrightarrow> m \<noteq> []" by (rule trim_nonempty)
  with assms show ?thesis
    by (auto simp add: ChatInterface_handleSendMessage_def Let_def createChatSession_eq
        send_to_session_eq issued_def request_line_interceptor request_line_config
        console_error_def)
qed

theorem ChatInterface_creates_session_first_witness:
  "\<not> truthy (currentSessionId \<lparr>messages = [], inputMessage = ''hello'', isLoading = False,
       sessions = [], currentSessionId = JNull\<rparr>) \<and>
   trim ''hello'' \<noteq> [] \<and>
   map request_line (issued world_initial (snd (ChatInterface_handleSendMessage
       \<lparr>messages = [], inputMessage = ''hello'', isLoading = False, sessions = [],
         currentSessionId = JNull\<rparr>
       world_initial None 1700000000000 (Inr [(''id'', JNum 5), (''title'', JStr ''New Chat'')])
       (Inr [(''id'', JNum 9), (''content'', JStr ''Hi there'')])))) =
     [(POST, ''/chat/sessions'', JsonBody [(''title'', JStr ''New Chat'')]),
      (POST, ''/chat/5'', JsonBody [(''role'', JStr ''user''), (''content'', JStr ''hello'')])] \<and>
   currentSessionId (fst (ChatInterface_handleSendMessage
       \<lparr>messages = [], inputMessage = ''hello'', isLoading = False, sessions = [],
         currentSessionId = JNull\<rparr>
       world_initial None 1700000000000 (Inr [(''id'', JNum 5), (''title'', JStr ''New Chat'')])
       (Inr [(''id'', JNum 9), (''content'', JStr ''Hi there'')]))) = JNum 5 \<and>
   map request_line (issued world_initial (snd (ChatInterface_handleSendMessage
       \<lparr>messages = [], inputMessage = ''hello'', isLoading = False, sessions = [],
         currentSessionId = JNull\<rparr>
       world_initial None 1700000000000 (Inl (ApiError ''Network Error'' None))
       (Inr [(''id'', JNum 9), (''content'', JStr ''Hi there'')])))) =
     [(POST, ''/chat/sessions'', JsonBody [(''title'', JStr ''New Chat'')])]"
proof -
  let ?c = "\<lparr>messages = [], inputMessage = ''hello'', isLoading = False, sessions = [],
         currentSessionId = JNull\<rparr>"
  let ?session = "[(''id'', JNum 5), (''title'', JStr ''New Chat'')]"
  let ?reply = "Inr [(''id'', JNum 9), (''content'', JStr ''Hi there'')] :: api_error + js_object"
  have g: "\<not> truthy (currentSessionId ?c)" by simp
  have m: "''hello'' = (case None of Some x \<Rightarrow> x | None \<Rightarrow> inputMessage ?c)" by simp
  have t: "trim ''hello'' \<noteq> []" by code_simp
  have n: "show_int 5 = ''5''" by code_simp
  from ChatInterface_creates_session_first [OF g m, where create_outcome = "Inr ?session"
      and newSession = ?session and w = world_initial and now = 1700000000000
      and send_outcome = ?reply] t
  have a: "map request_line (issued world_initial (snd (ChatInterface_handleSendMessage ?c
             world_initial None 1700000000000 (Inr ?session) ?reply))) =
           [(POST, ''/chat/sessions'', JsonBody [(''title'', JStr ''New Chat'')]),
            (POST, ''/chat/5'', JsonBody [(''role'', JStr ''user''), (''content'', JStr ''hello'')])]"
    and b: "currentSessionId (fst (ChatInterface_handleSendMessage ?c
             world_initial None 1700000000000 (Inr ?session) ?reply)) = JNum 5"
    by (simp_all add: get_field_def n)
  from ChatInterface_creates_session_first [OF g m,
      where create_outcome = "Inl (ApiError ''Network Error'' None)"
      and error = "ApiError ''Network Error'' None" and w = world_initial and now = 1700000000000
      and send_outcome = ?reply] t
  have c: "map request_line (issued world_initial (snd (ChatInterface_handleSendMessage ?c
             world_initial None 1700000000000 (Inl (ApiError ''Network Error'' None)) ?reply))) =
           [(POST, ''/chat/sessions'', JsonBody [(''title'', JStr ''New Chat'')])]"
    by simp
  from g t a b c show ?thesis by simp
qed

text \<open>
  The editor's handler answers a failed send with two new messages: the user's, then a
  model-role message with the fallback text.
\<close>

lemma AITalk_handleSendMessage_failure:
  "trim (userInput s) \<noteq> [] \<Longrightarrow> truthy (chatSessionId s) \<Longrightarrow>
   chatMessages (fst (AITalk_handleSendMessage s w (Inl error))) =
     chatMessages s @
       [[(''role'', JStr ''user''), (''content'', JStr (userInput s))],
        [(''role'', JStr ''model''), (''content'', JStr fallback_text)]]"
  by (simp add: AITalk_handleSendMessage_def Let_def sendMessage_eq)

text \<open>
  C2 states that on every path that sends a user message, a failed send adds two messages:
  the user's and a model-role message with the fallback text. The standalone chat does not
  do so: whenever a session is selected and the message passes the guard, a send that is
  rejected leaves the user's message as the only new one.
\<close>

theorem ChatInterface_no_fallback_on_failure:
  assumes "trim (inputMessage c) \<noteq> []" and "\<not> isLoading c" and "truthy (currentSessionId c)"
  shows "messages (fst (ChatInterface_handleSendMessage c w None now create_outcome (Inl error))) =
           messages c @
             [\<lparr>message_id = JNum now, message_role = ''user'',
               message_content = JStr (inputMessage c), message_timestamp = Date (JNum now),
               showSuggestions = False\<rparr>]"
proof -
  from assms(1) have "inputMessage c \<noteq> []" by (rule trim_nonempty)
  with assms show ?thesis
    by (simp add: ChatInterface_handleSendMessage_def Let_def send_to_session_eq)
qed

theorem ChatInterface_no_fallback_on_failure_witness:
  "trim ''hello'' \<noteq> [] \<and>
   map (\<lambda>m. (message_role m, message_content m))
     (messages (fst (ChatInterface_handleSendMessage
        \<lparr>messages = [], inputMessage = ''hello'', isLoading = False,
         sessions = [[(''id'', JNum 1), (''title'', JStr ''New Chat'')]],
         currentSessionId = JNum 1\<rparr>
        world_initial None 1700000000000 (Inr []) (Inl (ApiError ''Network Error'' None))))) =
   [(''user'', JStr ''hello'')]"
proof -
  let ?c = "\<lparr>messages = [], inputMessage = ''hello'', isLoading = False,
         sessions = [[(''id'', JNum 1), (''title'', JStr ''New Chat'')]],
         currentSessionId = JNum 1\<rparr>"
  have "trim ''hello'' \<noteq> []" by code_simp
  then have t: "trim (inputMessage ?c) \<noteq> []" by simp
  have l: "\<not> isLoading ?c" by simp
  have g: "truthy (currentSessionId ?c)" by simp
  from ChatInterface_no_fallback_on_failure [OF t l g, of world_initial 1700000000000 "Inr []"
      "ApiError ''Network Error'' None"] t
  show ?thesis by simp
qed

end
